theory Spec2Isabelle
  imports Main "HOL-Library.Word"
begin

section \<open>JavaScript values and the string operations the code uses\<close>

text \<open>
  What reaches the program from outside has no type at run time: the payloads of the three
  events (the annotation \<open>BloodRequest\<close> of the first is erased, the other two are
  \<open>any\<close>), the user profile handed to \<open>connect\<close>, the donor information of a response,
  the \<open>data\<close> field of a notification. They are modelled as JavaScript values:
  \<open>undefined\<close>, \<open>null\<close>, booleans, numbers, strings and objects (a list of properties,
  the first entry of a name being the property). Arrays and functions are not represented.
  The numbers are the integers from \<open>-2^53\<close> to \<open>2^53 - 1\<close>, which JavaScript holds
  exactly and prints in plain decimal; they are kept in 54 bits and read with \<open>sint\<close>.
  Clock readings are such numbers too. In the notification service strings are byte strings
  (the program only compares and concatenates them); the three emoji of the titles are
  their UTF-8 encodings.
\<close>

type_synonym js_int = "54 word"

datatype jsval =
    JUndefined
  | JNull
  | JBool bool
  | JNum js_int
  | JStr string
  | JObj "(string \<times> jsval) list"

datatype js_error = TypeError

text \<open>
  Property access \<open>v.k\<close>. Reading a property of \<open>undefined\<close> or \<open>null\<close> raises a
  \<open>TypeError\<close>; a missing property of an object, and any of the property names the program
  reads (\<open>id\<close>, \<open>requestId\<close>, \<open>donor\<close>, \<open>name\<close>, \<open>fullName\<close>, \<open>phoneNumber\<close>,
  \<open>bloodType\<close>, \<open>location\<close>, \<open>error\<close>, \<open>message\<close>) on a boolean, number or string, is
  \<open>undefined\<close>.
\<close>

fun js_get :: "jsval \<Rightarrow> string \<Rightarrow> js_error + jsval" where
  "js_get JUndefined k = Inl TypeError"
| "js_get JNull k = Inl TypeError"
| "js_get (JObj kvs) k = Inr (case map_of kvs k of None \<Rightarrow> JUndefined | Some v \<Rightarrow> v)"
| "js_get (JBool b) k = Inr JUndefined"
| "js_get (JNum n) k = Inr JUndefined"
| "js_get (JStr s) k = Inr JUndefined"

text \<open>Truthiness, as \<open>if (v)\<close>, \<open>v || d\<close> and \<open>v && d\<close> test it.\<close>

fun js_truthy :: "jsval \<Rightarrow> bool" where
  "js_truthy JUndefined = False"
| "js_truthy JNull = False"
| "js_truthy (JBool b) = b"
| "js_truthy (JNum n) = (n \<noteq> 0)"
| "js_truthy (JStr s) = (s \<noteq> [])"
| "js_truthy (JObj kvs) = True"

text \<open>The decimal digits of a natural number.\<close>

fun show_nat :: "nat \<Rightarrow> string" where
  "show_nat n =
     (if n < 10 then [''0123456789'' ! n]
      else show_nat (n div 10) @ [''0123456789'' ! (n mod 10)])"

declare show_nat.simps [simp del]

text \<open>
  The text of a number. All numbers of the model are integers below \<open>10^21\<close> in
  magnitude, which are printed digit by digit.
\<close>

definition number_text :: "js_int \<Rightarrow> string" where
  "number_text n =
     (if sint n < 0 then ''-'' @ show_nat (nat (- sint n)) else show_nat (nat (sint n)))"

text \<open>
  The string a template literal \<open>`${v}`\<close> inserts for a value, and the message
  \<open>new Error(v)\<close> gets. An object is converted by its \<open>toString\<close> method; the objects
  of the model inherit the one that answers \<open>[object Object]\<close>, unless they have a
  property named \<open>toString\<close> of their own, which is no function: then the conversion
  raises a \<open>TypeError\<close>.
\<close>

fun js_toString :: "jsval \<Rightarrow> js_error + string" where
  "js_toString JUndefined = Inr ''undefined''"
| "js_toString JNull = Inr ''null''"
| "js_toString (JBool b) = Inr (if b then ''true'' else ''false'')"
| "js_toString (JNum n) = Inr (number_text n)"
| "js_toString (JStr s) = Inr s"
| "js_toString (JObj kvs) =
     (if map_of kvs ''toString'' = None then Inr ''[object Object]'' else Inl TypeError)"

text \<open>
  The method call \<open>v.toUpperCase()\<close>. Only a string has the method: on every other
  value of the model the call raises a \<open>TypeError\<close>. What the method answers is the
  Unicode case mapping of the platform, a table that is no part of the program: \<open>upper\<close>
  stands for it.
\<close>

fun js_toUpperCase :: "(string \<Rightarrow> string) \<Rightarrow> jsval \<Rightarrow> js_error + string" where
  "js_toUpperCase upper (JStr s) = Inr (upper s)"
| "js_toUpperCase upper v = Inl TypeError"

text \<open>Sequencing: the first exception ends the evaluation.\<close>

definition and_then :: "js_error + 'a \<Rightarrow> ('a \<Rightarrow> js_error + 'b) \<Rightarrow> js_error + 'b" where
  "and_then r f = (case r of Inl e \<Rightarrow> Inl e | Inr x \<Rightarrow> f x)"

text \<open>
  In the profile view the characters of a string matter, since
  \<open>String.prototype.trim\<close> removes white space from both ends: there a string is the
  sequence of its UTF-16 code units, as in JavaScript. White space is \<open>WhiteSpace\<close> and
  \<open>LineTerminator\<close> of the language: tab, line feed, vertical tab, form feed, carriage
  return, space, no-break space, the Unicode space separators (U+1680, U+2000 to U+200A,
  U+202F, U+205F, U+3000), line and paragraph separator, and U+FEFF. Each is one code unit,
  and no surrogate is white space.
\<close>

type_synonym utf16 = "16 word list"

definition code_units :: "string \<Rightarrow> utf16" where
  "code_units s = map of_char s"

definition js_whitespace :: "16 word \<Rightarrow> bool" where
  "js_whitespace c =
     (c \<in> set [0x0009, 0x000A, 0x000B, 0x000C, 0x000D, 0x0020, 0x00A0, 0x1680,
                0x2000, 0x2001, 0x2002, 0x2003, 0x2004, 0x2005, 0x2006, 0x2007, 0x2008,
                0x2009, 0x200A, 0x2028, 0x2029, 0x202F, 0x205F, 0x3000, 0xFEFF])"

definition trim :: "utf16 \<Rightarrow> utf16" where
  "trim s = rev (dropWhile js_whitespace (rev (dropWhile js_whitespace s)))"

section \<open>The data model of the notification service\<close>

datatype urgency = critical | high | medium | low

fun urgency_str :: "urgency \<Rightarrow> string" where
  "urgency_str critical = ''critical''"
| "urgency_str high = ''high''"
| "urgency_str medium = ''medium''"
| "urgency_str low = ''low''"

text \<open>
  The shape the program declares for the payload of \<open>blood_request_match\<close>. Nothing
  checks a payload against it; it serves to write down payloads of that shape.
\<close>

record patientInfo =
  age :: js_int
  gender :: string
  condition :: string

record BloodRequest =
  br_id :: string
  br_bloodType :: string
  br_urgency :: urgency
  br_location :: string
  br_distance :: js_int
  br_requiredBy :: string
  br_patientInfo :: patientInfo
  br_hospitalName :: string
  br_contactInfo :: string

text \<open>The request as the JavaScript object that arrives.\<close>

definition BloodRequest_js :: "BloodRequest \<Rightarrow> jsval" where
  "BloodRequest_js r = JObj
     [(''id'', JStr (br_id r)),
      (''bloodType'', JStr (br_bloodType r)),
      (''urgency'', JStr (urgency_str (br_urgency r))),
      (''location'', JStr (br_location r)),
      (''distance'', JNum (br_distance r)),
      (''requiredBy'', JStr (br_requiredBy r)),
      (''patientInfo'', JObj
         [(''age'', JNum (age (br_patientInfo r))),
          (''gender'', JStr (gender (br_patientInfo r))),
          (''condition'', JStr (condition (br_patientInfo r)))]),
      (''hospitalName'', JStr (br_hospitalName r)),
      (''contactInfo'', JStr (br_contactInfo r))]"

datatype notification_type = blood_request | donation_accepted | request_fulfilled

record NotificationData =
  nid :: string
  ntype :: notification_type
  title :: string
  message :: string
  data :: jsval
  timestamp :: js_int
  read :: bool

text \<open>
  The socket.io client is a library. Of a socket the model keeps what the service does
  with it: the URL and the \<open>auth\<close> option it was created with, the event names of the
  \<open>on\<close> registrations, the events emitted, and whether \<open>disconnect\<close> has been called.
  \<open>sid\<close> is the identity of the object: the number of \<open>io\<close> calls made before it.
\<close>

record auth =
  userId :: string
  userRole :: string
  auth_bloodType :: jsval
  auth_location :: jsval

datatype response = accept | decline

record outbound =
  out_event :: string
  out_requestId :: jsval
  out_response :: response
  out_donorInfo :: jsval

record socket_obj =
  sid :: nat
  url :: string
  sock_auth :: auth
  handlers :: "string list"
  emitted :: "outbound list"
  active :: bool

text \<open>
  A subscriber is a function; the service compares subscribers by identity (\<open>!==\<close>) and
  calls them, nothing else. The model names each function by a number and records every
  call with the list it was given. Subscribers are taken to return normally and not to call
  back into the service while they run.
\<close>

type_synonym callback = nat

datatype permission = default_permission | granted | denied

record browser_notification =
  bn_title :: string
  bn_body :: string
  bn_icon :: string
  bn_tag :: string

datatype toast_kind = toast_error | toast_success

record toast =
  t_kind :: toast_kind
  t_text :: string
  t_autoClose :: nat
  t_onClick :: "NotificationData option"

text \<open>
  The three private fields of \<open>NotificationService\<close> (\<open>socket\<close>, \<open>notifications\<close>,
  \<open>listeners\<close>) and what its methods do to the world around it: \<open>io_calls\<close> counts the
  channels opened, \<open>closed\<close> keeps the sockets that were disconnected, \<open>delivered\<close> the
  subscriber calls, \<open>browser_notifications\<close> and \<open>toasts\<close> the alerts shown.
\<close>

record world =
  socket :: "socket_obj option"
  notifications :: "NotificationData list"
  listeners :: "callback list"
  io_calls :: nat
  closed :: "socket_obj list"
  delivered :: "(callback \<times> NotificationData list) list"
  browser_notifications :: "browser_notification list"
  toasts :: "toast list"

definition initial :: world where
  "initial = \<lparr> socket = None, notifications = [], listeners = [], io_calls = 0,
     closed = [], delivered = [], browser_notifications = [], toasts = [] \<rparr>"

section \<open>The notification service\<close>

subsection \<open>Subscribers\<close>

definition notifyListeners :: "world \<Rightarrow> world" where
  "notifyListeners w =
     w\<lparr>delivered := delivered w @ map (\<lambda>listener. (listener, notifications w)) (listeners w)\<rparr>"

definition unsubscribe :: "callback \<Rightarrow> world \<Rightarrow> world" where
  "unsubscribe callback w = w\<lparr>listeners := filter (\<lambda>l. l \<noteq> callback) (listeners w)\<rparr>"

text \<open>\<open>subscribe\<close> returns the new world and the closure that unsubscribes.\<close>

definition subscribe :: "callback \<Rightarrow> world \<Rightarrow> world \<times> (world \<Rightarrow> world)" where
  "subscribe callback w = (w\<lparr>listeners := listeners w @ [callback]\<rparr>, unsubscribe callback)"

subsection \<open>Notifications\<close>

definition addNotification :: "NotificationData \<Rightarrow> world \<Rightarrow> world" where
  "addNotification notification w =
     notifyListeners (w\<lparr>notifications := notification # notifications w\<rparr>)"

definition showBrowserNotification :: "permission \<Rightarrow> NotificationData \<Rightarrow> world \<Rightarrow> world" where
  "showBrowserNotification perm notification w =
     (if perm = granted
      then w\<lparr>browser_notifications := browser_notifications w @
             [\<lparr> bn_title = title notification, bn_body = message notification,
                bn_icon = ''/blood-icon.png'', bn_tag = nid notification \<rparr>]\<rparr>
      else w)"

definition showToastNotification :: "NotificationData \<Rightarrow> world \<Rightarrow> world" where
  "showToastNotification notification w =
     (if ntype notification = blood_request
      then w\<lparr>toasts := toasts w @
             [\<lparr> t_kind = toast_error, t_text = message notification, t_autoClose = 8000,
                t_onClick = Some notification \<rparr>]\<rparr>
      else w\<lparr>toasts := toasts w @
             [\<lparr> t_kind = toast_success, t_text = message notification, t_autoClose = 5000,
                t_onClick = None \<rparr>]\<rparr>)"

definition markAsRead :: "string \<Rightarrow> world \<Rightarrow> world" where
  "markAsRead notificationId w =
     notifyListeners
       (w\<lparr>notifications :=
            map (\<lambda>n. if nid n = notificationId then n\<lparr>read := True\<rparr> else n) (notifications w)\<rparr>)"

definition getNotifications :: "world \<Rightarrow> NotificationData list" where
  "getNotifications w = notifications w"

definition getUnreadCount :: "world \<Rightarrow> nat" where
  "getUnreadCount w = length (filter (\<lambda>n. \<not> read n) (notifications w))"

subsection \<open>The channel\<close>

definition drop_of_blood :: string where
  "drop_of_blood = [CHR 0xF0, CHR 0x9F, CHR 0xA9, CHR 0xB8]"

definition check_mark :: string where
  "check_mark = [CHR 0xE2, CHR 0x9C, CHR 0x85]"

definition party_popper :: string where
  "party_popper = [CHR 0xF0, CHR 0x9F, CHR 0x8E, CHR 0x89]"

text \<open>
  The notification each handler builds; \<open>t\<close> is what \<open>Date.now()\<close> returns and
  \<open>stamp\<close> the time of \<open>new Date()\<close>. The properties of the object literal are
  evaluated in order, and the first read of a property of \<open>undefined\<close> or \<open>null\<close>, the
  first conversion to a string that fails, or the call of \<open>toUpperCase\<close> on what is no
  string, raises and ends the handler.
\<close>

definition blood_request_notification ::
  "(string \<Rightarrow> string) \<Rightarrow> jsval \<Rightarrow> js_int \<Rightarrow> js_int \<Rightarrow> js_error + NotificationData" where
  "blood_request_notification upper d t stamp =
     and_then (js_get d ''id'') (\<lambda>i.
     and_then (js_toString i) (\<lambda>id_text.
     and_then (js_get d ''urgency'') (\<lambda>u.
     and_then (js_toUpperCase upper u) (\<lambda>urgency_text.
     and_then (js_get d ''bloodType'') (\<lambda>b.
     and_then (js_toString b) (\<lambda>bloodType_text.
     and_then (js_get d ''hospitalName'') (\<lambda>h.
     and_then (js_toString h) (\<lambda>hospitalName_text.
     and_then (js_get d ''distance'') (\<lambda>k.
     and_then (js_toString k) (\<lambda>distance_text.
       Inr \<lparr> nid = ''req_'' @ id_text @ ''_'' @ number_text t,
             ntype = blood_request,
             title = drop_of_blood @ '' '' @ urgency_text @ '' Blood Request'',
             message = bloodType_text @ '' blood needed at '' @ hospitalName_text @
                       '' ('' @ distance_text @ ''km away)'',
             data = d,
             timestamp = stamp,
             read = False \<rparr>))))))))))"

definition donation_accepted_notification ::
  "jsval \<Rightarrow> js_int \<Rightarrow> js_int \<Rightarrow> js_error + NotificationData" where
  "donation_accepted_notification d t stamp =
     and_then (js_get d ''requestId'') (\<lambda>requestId.
     and_then (js_toString requestId) (\<lambda>requestId_text.
     and_then (js_get d ''donor'') (\<lambda>donor.
     and_then (js_get donor ''name'') (\<lambda>name.
     and_then (js_toString name) (\<lambda>name_text.
       Inr \<lparr> nid = ''acc_'' @ requestId_text @ ''_'' @ number_text t,
             ntype = donation_accepted,
             title = check_mark @ '' Donor Found!'',
             message = name_text @ '' has accepted your blood request'',
             data = d,
             timestamp = stamp,
             read = False \<rparr>)))))"

definition request_fulfilled_notification ::
  "jsval \<Rightarrow> js_int \<Rightarrow> js_int \<Rightarrow> js_error + NotificationData" where
  "request_fulfilled_notification d t stamp =
     and_then (js_get d ''requestId'') (\<lambda>requestId.
     and_then (js_toString requestId) (\<lambda>requestId_text.
       Inr \<lparr> nid = ''ful_'' @ requestId_text @ ''_'' @ number_text t,
             ntype = request_fulfilled,
             title = party_popper @ '' Request Completed'',
             message = ''Blood request has been successfully fulfilled'',
             data = d,
             timestamp = stamp,
             read = False \<rparr>))"

datatype event =
    blood_request_match jsval
  | donation_accepted_event jsval
  | request_fulfilled_event jsval

fun event_name :: "event \<Rightarrow> string" where
  "event_name (blood_request_match d) = ''blood_request_match''"
| "event_name (donation_accepted_event d) = ''donation_accepted''"
| "event_name (request_fulfilled_event d) = ''request_fulfilled''"

text \<open>
  An arrival is an event together with what its handler takes from the platform: the two
  clock readings, \<open>Notification.permission\<close>, and the case mapping behind
  \<open>toUpperCase\<close>.
\<close>

record arrival =
  ev :: event
  now :: js_int
  stamp :: js_int
  perm :: permission
  toUpperCase :: "string \<Rightarrow> string"

definition event_notification :: "arrival \<Rightarrow> js_error + NotificationData" where
  "event_notification a =
     (case ev a of
        blood_request_match d \<Rightarrow>
          blood_request_notification (toUpperCase a) d (now a) (stamp a)
      | donation_accepted_event d \<Rightarrow> donation_accepted_notification d (now a) (stamp a)
      | request_fulfilled_event d \<Rightarrow> request_fulfilled_notification d (now a) (stamp a))"

text \<open>
  The body shared by the three handlers: build the notification, then
  \<open>addNotification\<close>, \<open>showBrowserNotification\<close>, \<open>showToastNotification\<close>. An exception
  raised while the notification is built leaves the handler before any of the three.
\<close>

definition handle_event :: "arrival \<Rightarrow> world \<Rightarrow> js_error + world" where
  "handle_event a w =
     (case event_notification a of
        Inl e \<Rightarrow> Inl e
      | Inr notification \<Rightarrow>
          Inr (showToastNotification notification
                (showBrowserNotification (perm a) notification
                  (addNotification notification w))))"

text \<open>
  An event reaches the service through the socket it holds: a socket that was disconnected
  delivers nothing, and an event has a handler when its name was registered with \<open>on\<close>.
\<close>

definition receive :: "arrival \<Rightarrow> world \<Rightarrow> js_error + world" where
  "receive a w =
     (case socket w of
        None \<Rightarrow> Inr w
      | Some so \<Rightarrow>
          if event_name (ev a) \<in> set (handlers so) then handle_event a w else Inr w)"

definition socket_url :: "string option \<Rightarrow> string" where
  "socket_url env =
     (case env of
        None \<Rightarrow> ''http://localhost:5000''
      | Some u \<Rightarrow> if u = [] then ''http://localhost:5000'' else u)"

definition on :: "string \<Rightarrow> socket_obj \<Rightarrow> socket_obj" where
  "on name so = so\<lparr>handlers := handlers so @ [name]\<rparr>"

definition io :: "nat \<Rightarrow> string \<Rightarrow> auth \<Rightarrow> socket_obj" where
  "io n u a = \<lparr> sid = n, url = u, sock_auth = a, handlers = [], emitted = [], active = True \<rparr>"

definition connect :: "string option \<Rightarrow> string \<Rightarrow> string \<Rightarrow> jsval \<Rightarrow> world \<Rightarrow> js_error + world" where
  "connect env uid role userProfile w =
     (if socket w \<noteq> None then Inr w
      else
        (case js_get userProfile ''bloodType'' of
           Inl e \<Rightarrow> Inl e
         | Inr bt \<Rightarrow>
             (case js_get userProfile ''location'' of
                Inl e \<Rightarrow> Inl e
              | Inr loc \<Rightarrow>
                  Inr (w\<lparr>socket := Some
                         (on ''request_fulfilled''
                           (on ''donation_accepted''
                             (on ''blood_request_match''
                               (on ''connect''
                                 (io (io_calls w) (socket_url env)
                                    \<lparr> userId = uid, userRole = role,
                                      auth_bloodType = bt, auth_location = loc \<rparr>))))),
                        io_calls := Suc (io_calls w)\<rparr>))))"

definition emit :: "outbound \<Rightarrow> socket_obj \<Rightarrow> socket_obj" where
  "emit e so = so\<lparr>emitted := emitted so @ [e]\<rparr>"

definition respondToBloodRequest :: "jsval \<Rightarrow> response \<Rightarrow> jsval \<Rightarrow> world \<Rightarrow> world" where
  "respondToBloodRequest requestId resp userInfo w =
     (case socket w of
        None \<Rightarrow> w
      | Some so \<Rightarrow>
          w\<lparr>socket := Some (emit \<lparr> out_event = ''donor_response'', out_requestId = requestId,
                                   out_response = resp, out_donorInfo = userInfo \<rparr> so)\<rparr>)"

definition disconnect :: "world \<Rightarrow> world" where
  "disconnect w =
     (case socket w of
        None \<Rightarrow> w
      | Some so \<Rightarrow> w\<lparr>closed := closed w @ [so\<lparr>active := False\<rparr>], socket := None\<rparr>)"

subsection \<open>The notification centre's calls into the service\<close>

text \<open>
  \<open>handleAcceptBloodRequest\<close> and \<open>handleDeclineBloodRequest\<close> of the notification
  centre: \<open>requestData\<close> is the \<open>data\<close> of the notification whose button was pressed,
  \<open>userProfile\<close> the profile of the user; both are \<open>any\<close>.
\<close>

definition handleAcceptBloodRequest :: "jsval \<Rightarrow> jsval \<Rightarrow> world \<Rightarrow> js_error + world" where
  "handleAcceptBloodRequest userProfile requestData w =
     (case js_get requestData ''id'' of
        Inl e \<Rightarrow> Inl e
      | Inr rid \<Rightarrow>
     (case js_get userProfile ''id'' of
        Inl e \<Rightarrow> Inl e
      | Inr uid \<Rightarrow>
     (case js_get userProfile ''fullName'' of
        Inl e \<Rightarrow> Inl e
      | Inr fullName \<Rightarrow>
     (case js_get userProfile ''phoneNumber'' of
        Inl e \<Rightarrow> Inl e
      | Inr phoneNumber \<Rightarrow>
     (case js_get userProfile ''bloodType'' of
        Inl e \<Rightarrow> Inl e
      | Inr bloodType \<Rightarrow>
          Inr (respondToBloodRequest rid accept
                 (JObj [(''id'', uid), (''name'', fullName), (''phone'', phoneNumber),
                        (''bloodType'', bloodType)]) w))))))"

definition handleDeclineBloodRequest :: "jsval \<Rightarrow> jsval \<Rightarrow> world \<Rightarrow> js_error + world" where
  "handleDeclineBloodRequest userProfile requestData w =
     (case js_get requestData ''id'' of
        Inl e \<Rightarrow> Inl e
      | Inr rid \<Rightarrow>
     (case js_get userProfile ''id'' of
        Inl e \<Rightarrow> Inl e
      | Inr uid \<Rightarrow>
     (case js_get userProfile ''fullName'' of
        Inl e \<Rightarrow> Inl e
      | Inr fullName \<Rightarrow>
          Inr (respondToBloodRequest rid decline
                 (JObj [(''id'', uid), (''name'', fullName)]) w))))"

definition handleMarkAsRead :: "string \<Rightarrow> world \<Rightarrow> world" where
  "handleMarkAsRead notificationId w = markAsRead notificationId w"

subsection \<open>Sessions\<close>

text \<open>
  A session is a sequence of calls and arrivals. A call or a handler that raises leaves the
  world as it was: each of them raises before its first assignment.
\<close>

datatype op =
    Connect "string option" string string jsval
  | Receive arrival
  | Respond jsval response jsval
  | MarkAsRead string
  | Subscribe callback
  | Unsubscribe callback
  | Disconnect

definition or_unchanged :: "world \<Rightarrow> js_error + world \<Rightarrow> world" where
  "or_unchanged w r = (case r of Inl e \<Rightarrow> w | Inr w' \<Rightarrow> w')"

fun step :: "op \<Rightarrow> world \<Rightarrow> world" where
  "step (Connect env uid role userProfile) w = or_unchanged w (connect env uid role userProfile w)"
| "step (Receive a) w = or_unchanged w (receive a w)"
| "step (Respond requestId resp userInfo) w = respondToBloodRequest requestId resp userInfo w"
| "step (MarkAsRead notificationId) w = markAsRead notificationId w"
| "step (Subscribe callback) w = fst (subscribe callback w)"
| "step (Unsubscribe callback) w = unsubscribe callback w"
| "step Disconnect w = disconnect w"

fun run :: "op list \<Rightarrow> world \<Rightarrow> world" where
  "run [] w = w"
| "run (x # xs) w = run xs (step x w)"

section \<open>The profile settings view\<close>

datatype role = donor | patient | clinic

record UserProfile =
  up_id :: utf16
  up_email :: utf16
  up_fullName :: utf16
  up_role :: role
  up_bloodType :: "utf16 option"
  up_location :: utf16
  up_phoneNumber :: utf16
  up_createdAt :: utf16
  up_isAvailable :: "bool option"
  up_organizationType :: "utf16 option"
  up_organizationName :: "utf16 option"

record formData =
  fd_fullName :: utf16
  fd_phoneNumber :: utf16
  fd_location :: utf16
  fd_bloodType :: utf16
  fd_isAvailable :: bool
  fd_organizationName :: utf16
  fd_organizationType :: utf16

text \<open>The draft a profile gives: \<open>x || ''\<close> for the optional strings, \<open>x || false\<close> for the flag.\<close>

definition or_empty :: "utf16 option \<Rightarrow> utf16" where
  "or_empty x = (case x of None \<Rightarrow> [] | Some s \<Rightarrow> s)"

definition or_false :: "bool option \<Rightarrow> bool" where
  "or_false x = (case x of None \<Rightarrow> False | Some b \<Rightarrow> b)"

definition draft_of :: "UserProfile \<Rightarrow> formData" where
  "draft_of userProfile =
     \<lparr> fd_fullName = up_fullName userProfile,
       fd_phoneNumber = up_phoneNumber userProfile,
       fd_location = up_location userProfile,
       fd_bloodType = or_empty (up_bloodType userProfile),
       fd_isAvailable = or_false (up_isAvailable userProfile),
       fd_organizationName = or_empty (up_organizationName userProfile),
       fd_organizationType = or_empty (up_organizationType userProfile) \<rparr>"

text \<open>The object handed to \<open>profile.update\<close>; a property that is absent is \<open>None\<close>.\<close>

record updateData =
  ud_fullName :: utf16
  ud_phoneNumber :: utf16
  ud_location :: utf16
  ud_bloodType :: "utf16 option"
  ud_isAvailable :: "bool option"
  ud_organizationName :: "utf16 option"
  ud_organizationType :: "utf16 option"

text \<open>
  The state of the component (\<open>isEditing\<close>, \<open>isLoading\<close>, \<open>formData\<close>) and what it does
  outside: the calls of \<open>profile.update\<close>, the toasts, the calls of the
  \<open>onProfileUpdate\<close> callback, the values logged with \<open>console.error\<close>. The toast
  functions, \<open>console.error\<close> and the callback are taken to return normally.
\<close>

record settings =
  isEditing :: bool
  isLoading :: bool
  form :: formData
  update_calls :: "updateData list"
  ps_toasts :: "(toast_kind \<times> jsval) list"
  refreshes :: nat
  console_errors :: "jsval list"

definition mount :: "UserProfile \<Rightarrow> settings" where
  "mount userProfile =
     \<lparr> isEditing = False, isLoading = False, form = draft_of userProfile,
       update_calls = [], ps_toasts = [], refreshes = 0, console_errors = [] \<rparr>"

text \<open>
  \<open>profile.update\<close> is imported from another module: the awaited call either resolves
  with a result, whose \<open>error\<close> property the code reads, or rejects with a value.
\<close>

datatype update_outcome = resolves jsval | rejects jsval

definition build_updateData :: "UserProfile \<Rightarrow> formData \<Rightarrow> updateData" where
  "build_updateData userProfile fd =
     \<lparr> ud_fullName = trim (fd_fullName fd),
       ud_phoneNumber = trim (fd_phoneNumber fd),
       ud_location = trim (fd_location fd),
       ud_bloodType = (if up_role userProfile = donor then Some (fd_bloodType fd) else None),
       ud_isAvailable = (if up_role userProfile = donor then Some (fd_isAvailable fd) else None),
       ud_organizationName =
         (if up_role userProfile = clinic then Some (trim (fd_organizationName fd)) else None),
       ud_organizationType =
         (if up_role userProfile = clinic then Some (fd_organizationType fd) else None) \<rparr>"

definition error_object :: "string \<Rightarrow> jsval" where
  "error_object msg = JObj [(''message'', JStr msg)]"

text \<open>
  What the \<open>try\<close> block throws after the update call, if anything: the rejection itself,
  the \<open>TypeError\<close> of reading \<open>result.error\<close> from \<open>undefined\<close> or \<open>null\<close> (its message
  \<open>engine_msg\<close> is the engine's), or, when \<open>result.error\<close> is truthy,
  \<open>new Error(result.error)\<close>, or the \<open>TypeError\<close> of converting that error to the
  message.
\<close>

definition thrown_by_update :: "string \<Rightarrow> update_outcome \<Rightarrow> jsval option" where
  "thrown_by_update engine_msg outcome =
     (case outcome of
        rejects e \<Rightarrow> Some e
      | resolves result \<Rightarrow>
          (case js_get result ''error'' of
             Inl TypeError \<Rightarrow> Some (error_object engine_msg)
           | Inr err \<Rightarrow>
               if js_truthy err
               then (case js_toString err of
                       Inl TypeError \<Rightarrow> Some (error_object engine_msg)
                     | Inr msg \<Rightarrow> Some (error_object msg))
               else None))"

text \<open>
  \<open>handleSave\<close>. The second component of the result is the exception the function itself
  ends with: the \<open>catch\<close> block reads \<open>error.message\<close>, which raises when the value caught
  is \<open>undefined\<close> or \<open>null\<close>; the \<open>finally\<close> block runs all the same.
\<close>

definition handleSave ::
  "UserProfile \<Rightarrow> string \<Rightarrow> update_outcome \<Rightarrow> settings \<Rightarrow> settings \<times> js_error option" where
  "handleSave userProfile engine_msg outcome c =
     (let c1 = c\<lparr>isLoading := True\<rparr>;
          c2 = c1\<lparr>update_calls := update_calls c1 @ [build_updateData userProfile (form c1)]\<rparr>
      in case thrown_by_update engine_msg outcome of
           None \<Rightarrow>
             (c2\<lparr>isEditing := False,
                 ps_toasts := ps_toasts c2 @ [(toast_success, JStr ''Profile updated successfully!'')],
                 refreshes := Suc (refreshes c2),
                 isLoading := False\<rparr>, None)
         | Some e \<Rightarrow>
             (let c3 = c2\<lparr>console_errors := console_errors c2 @ [e]\<rparr>
              in case js_get e ''message'' of
                   Inl err \<Rightarrow> (c3\<lparr>isLoading := False\<rparr>, Some err)
                 | Inr m \<Rightarrow>
                     (c3\<lparr>ps_toasts := ps_toasts c3 @
                            [(toast_error,
                              if js_truthy m then m else JStr ''Failed to update profile'')],
                         isLoading := False\<rparr>, None)))"

definition handleCancel :: "UserProfile \<Rightarrow> settings \<Rightarrow> settings" where
  "handleCancel userProfile c = c\<lparr>form := draft_of userProfile, isEditing := False\<rparr>"

section \<open>Notions the properties are stated with\<close>

text \<open>Every event the service has emitted, on the sockets it closed and on the one it holds.\<close>

definition outbox :: "world \<Rightarrow> outbound list" where
  "outbox w =
     concat (map emitted (closed w)) @ (case socket w of None \<Rightarrow> [] | Some so \<Rightarrow> emitted so)"

text \<open>
  Socket identities are handed out in order: every socket the world knows was created by
  an earlier \<open>io\<close> call.
\<close>

definition sids_below :: "world \<Rightarrow> bool" where
  "sids_below w =
     ((\<forall>so \<in> set (closed w). sid so < io_calls w) \<and>
      (case socket w of None \<Rightarrow> True | Some so \<Rightarrow> sid so < io_calls w))"

text \<open>
  A connected service: it holds a socket on which the three event names have a handler,
  as every socket that \<open>connect\<close> creates has.
\<close>

definition connected :: "world \<Rightarrow> bool" where
  "connected w =
     (case socket w of
        None \<Rightarrow> False
      | Some so \<Rightarrow>
          list_all (\<lambda>name. name \<in> set (handlers so))
            [''blood_request_match'', ''donation_accepted'', ''request_fulfilled''])"

text \<open>
  What may happen to a record over time: it stays as it is, or its read flag is set.
  \<open>kept old new\<close>: the records of \<open>old\<close> are the last records of \<open>new\<close>, in the same
  order, each unchanged or marked read.
\<close>

definition same_but_read :: "NotificationData \<Rightarrow> NotificationData \<Rightarrow> bool" where
  "same_but_read a b = (b = a \<or> b = a\<lparr>read := True\<rparr>)"

definition kept :: "NotificationData list \<Rightarrow> NotificationData list \<Rightarrow> bool" where
  "kept old new =
     (length old \<le> length new \<and>
      list_all2 same_but_read old (drop (length new - length old) new))"

text \<open>The subscriber calls made between two worlds of a session.\<close>

definition calls_since :: "world \<Rightarrow> world \<Rightarrow> (callback \<times> NotificationData list) list" where
  "calls_since w w' = drop (length (delivered w)) (delivered w')"








text \<open>
  \<open>trimmed s t\<close>: \<open>t\<close> is \<open>s\<close> without white space at its two ends.
\<close>

definition trimmed :: "utf16 \<Rightarrow> utf16 \<Rightarrow> bool" where
  "trimmed s t =
     (\<exists>p q. s = p @ t @ q \<and> list_all js_whitespace p \<and> list_all js_whitespace q \<and>
        (t = [] \<or> (js_whitespace (hd t) = False \<and> js_whitespace (last t) = False)))"

text \<open>
  The update call succeeded, as \<open>handleSave\<close> tells: it resolved with a result whose
  \<open>error\<close> is falsy. It failed when it rejected, or when the result has a truthy \<open>error\<close>
  or no readable \<open>error\<close> property at all.
\<close>

definition update_succeeded :: "update_outcome \<Rightarrow> bool" where
  "update_succeeded outcome =
     (case outcome of
        rejects e \<Rightarrow> False
      | resolves result \<Rightarrow>
          (case js_get result ''error'' of Inl e \<Rightarrow> False | Inr err \<Rightarrow> js_truthy err = False))"

section \<open>Example inputs\<close>

definition donor_profile :: jsval where
  "donor_profile = JObj
     [(''id'', JStr ''u1''), (''role'', JStr ''donor''), (''fullName'', JStr ''Asha Rao''),
      (''phoneNumber'', JStr ''555-0101''), (''bloodType'', JStr ''O-''),
      (''location'', JStr ''Pune'')]"

definition connected_world :: world where
  "connected_world = step (Connect None ''u1'' ''donor'' donor_profile) initial"

definition example_request :: BloodRequest where
  "example_request =
     \<lparr> br_id = ''7'', br_bloodType = ''O-'', br_urgency = critical, br_location = ''Pune'',
       br_distance = 3, br_requiredBy = ''2024-05-01'',
       br_patientInfo = \<lparr> age = 41, gender = ''female'', condition = ''surgery'' \<rparr>,
       br_hospitalName = ''City Hospital'', br_contactInfo = ''555-0199'' \<rparr>"

text \<open>The case mapping of the letters \<open>a\<close> to \<open>z\<close>, for the examples.\<close>

definition upper_char :: "char \<Rightarrow> char" where
  "upper_char c =
     (let n = (of_char c :: nat) in if 97 \<le> n \<and> n \<le> 122 then char_of (n - 32) else c)"

definition ascii_upper :: "string \<Rightarrow> string" where
  "ascii_upper s = map upper_char s"

definition match_arrival :: arrival where
  "match_arrival =
     \<lparr> ev = blood_request_match (BloodRequest_js example_request), now = 1000, stamp = 1000,
       perm = granted, toUpperCase = ascii_upper \<rparr>"


definition fulfilled_arrival :: arrival where
  "fulfilled_arrival =
     \<lparr> ev = request_fulfilled_event (JObj [(''requestId'', JStr ''r1'')]),
       now = 3000, stamp = 3000, perm = default_permission, toUpperCase = ascii_upper \<rparr>"

definition read_notification :: NotificationData where
  "read_notification =
     \<lparr> nid = ''ful_r0_500'', ntype = request_fulfilled, title = ''Request Completed'',
       message = ''Blood request has been successfully fulfilled'',
       data = JObj [(''requestId'', JStr ''r0'')], timestamp = 500, read = True \<rparr>"

definition world_with_read :: world where
  "world_with_read = connected_world\<lparr>notifications := [read_notification]\<rparr>"

definition subscribed_world :: world where
  "subscribed_world = run [Subscribe 1, Subscribe 2, Subscribe 1] connected_world"




definition jane :: UserProfile where
  "jane =
     \<lparr> up_id = code_units ''u7'', up_email = code_units ''jane@example.org'',
       up_fullName = code_units ''Jane'', up_role = donor,
       up_bloodType = Some (code_units ''A+''), up_location = code_units ''Leeds'',
       up_phoneNumber = code_units ''555-0177'', up_createdAt = code_units ''2024-01-01'',
       up_isAvailable = Some True, up_organizationType = None, up_organizationName = None \<rparr>"

text \<open>A draft whose full name has a no-break space in front and one behind.\<close>

definition jane_nbsp_editing :: settings where
  "jane_nbsp_editing =
     (mount jane)\<lparr>isEditing := True,
                  form := (draft_of jane)\<lparr>fd_fullName := [0x00A0] @ code_units ''Jane'' @ [0x00A0]\<rparr>\<rparr>"

definition jane_editing :: settings where
  "jane_editing =
     (mount jane)\<lparr>isEditing := True,
                  form := (draft_of jane)\<lparr>fd_fullName := code_units ''  Jane Doe  ''\<rparr>\<rparr>"

section \<open>Properties of the notification service\<close>

subsection \<open>Marking as read\<close>

text \<open>
  C2. \<open>markAsRead\<close> is idempotent: for every notification list and every identifier,
  marking twice leaves the notification list (and the other two fields of the service) as
  marking once does.
\<close>

theorem markAsRead_idempotent:
  "notifications (markAsRead i (markAsRead i w)) = notifications (markAsRead i w)
   \<and> socket (markAsRead i (markAsRead i w)) = socket (markAsRead i w)
   \<and> listeners (markAsRead i (markAsRead i w)) = listeners (markAsRead i w)"
  by (simp add: markAsRead_def notifyListeners_def)

subsection \<open>The unread count\<close>

text \<open>
  C8. In every state, \<open>getUnreadCount\<close> is the number of positions of the current
  snapshot (\<open>getNotifications\<close>) whose record has its read flag false.
\<close>

theorem getUnreadCount_counts_unread:
  "getUnreadCount w =
     card {i. i < length (getNotifications w) \<and> read (getNotifications w ! i) = False}"
  by (simp add: getUnreadCount_def getNotifications_def length_filter_conv_card)

subsection \<open>Connecting twice\<close>

text \<open>
  C5. When a channel is already open, \<open>connect\<close>, whatever its arguments, returns
  normally and leaves the world as it is: no \<open>io\<close> call is made, the socket and its
  handler registrations are the same, and so are the notification list and the subscribers.
\<close>

theorem connect_idempotent:
  assumes "socket w \<noteq> None"
  shows "connect env uid r userProfile w = Inr w
         \<and> io_calls (step (Connect env uid r userProfile) w) = io_calls w
         \<and> socket (step (Connect env uid r userProfile) w) = socket w
         \<and> notifications (step (Connect env uid r userProfile) w) = notifications w
         \<and> listeners (step (Connect env uid r userProfile) w) = listeners w"
  using assms by (simp add: connect_def or_unchanged_def)

lemma connected_world_eq:
  "connected_world =
     \<lparr> socket = Some
         \<lparr> sid = 0, url = ''http://localhost:5000'',
           sock_auth = \<lparr> userId = ''u1'', userRole = ''donor'',
                         auth_bloodType = JStr ''O-'', auth_location = JStr ''Pune'' \<rparr>,
           handlers = [''connect'', ''blood_request_match'', ''donation_accepted'',
                       ''request_fulfilled''],
           emitted = [], active = True \<rparr>,
       notifications = [], listeners = [], io_calls = Suc 0, closed = [], delivered = [],
       browser_notifications = [], toasts = [] \<rparr>"
  by (simp add: connected_world_def connect_def or_unchanged_def initial_def donor_profile_def
      io_def on_def socket_url_def)

theorem connect_idempotent_witness:
  "socket connected_world \<noteq> None
   \<and> connect (Some ''http://example.org'') ''u2'' ''patient'' JNull connected_world
       = Inr connected_world"
  using connect_idempotent [of connected_world "Some ''http://example.org''" "''u2''"
      "''patient''" JNull]
  by (simp add: connected_world_eq)

subsection \<open>Reading properties, and what each step leaves alone\<close>

lemma js_get_ok: "v \<noteq> JUndefined \<Longrightarrow> v \<noteq> JNull \<Longrightarrow> \<exists>x. js_get v k = Inr x"
  by (cases v) simp_all

lemma js_get_Inl: "js_get v k = Inl e \<longleftrightarrow> (v = JUndefined \<or> v = JNull)"
  by (cases v; cases e) simp_all





lemma connect_cases:
  "connect env uid r p w = Inr w' \<Longrightarrow>
     (socket w \<noteq> None \<and> w' = w) \<or>
     (socket w = None \<and>
      (\<exists>so. w' = w\<lparr>socket := Some so, io_calls := Suc (io_calls w)\<rparr> \<and> sid so = io_calls w
         \<and> active so \<and> emitted so = []
         \<and> handlers so = [''connect'', ''blood_request_match'', ''donation_accepted'',
                           ''request_fulfilled'']))"
  by (auto simp: connect_def io_def on_def split: if_splits sum.splits)

lemma handle_event_frame:
  "handle_event a w = Inr w' \<Longrightarrow>
     socket w' = socket w \<and> closed w' = closed w \<and> io_calls w' = io_calls w
     \<and> listeners w' = listeners w"
  by (auto simp: handle_event_def showToastNotification_def showBrowserNotification_def
      addNotification_def notifyListeners_def split: sum.splits)

lemma receive_frame:
  "receive a w = Inr w' \<Longrightarrow>
     socket w' = socket w \<and> closed w' = closed w \<and> io_calls w' = io_calls w
     \<and> listeners w' = listeners w"
  by (auto simp: receive_def dest: handle_event_frame split: option.splits if_splits)

subsection \<open>Socket identities\<close>

lemma sids_below_initial: "sids_below initial"
  by (simp add: sids_below_def initial_def)

lemma step_sids_below: "sids_below w \<Longrightarrow> sids_below (step x w)"
proof (cases x)
  case (Connect env uid r p)
  assume inv: "sids_below w"
  show ?thesis
  proof (cases "connect env uid r p w")
    case (Inl e)
    with Connect inv show ?thesis by (simp add: or_unchanged_def)
  next
    case (Inr w')
    from connect_cases [OF Inr] inv have "sids_below w'"
      by (auto simp: sids_below_def less_Suc_eq split: option.splits)
    with Connect Inr show ?thesis by (simp add: or_unchanged_def)
  qed
next
  case (Receive a)
  assume inv: "sids_below w"
  show ?thesis
  proof (cases "receive a w")
    case (Inl e)
    with Receive inv show ?thesis by (simp add: or_unchanged_def)
  next
    case (Inr w')
    from receive_frame [OF Inr] inv have "sids_below w'"
      by (auto simp: sids_below_def split: option.splits)
    with Receive Inr show ?thesis by (simp add: or_unchanged_def)
  qed
qed (auto simp: sids_below_def respondToBloodRequest_def emit_def markAsRead_def
       notifyListeners_def subscribe_def unsubscribe_def disconnect_def split: option.splits)

lemma run_sids_below: "sids_below w \<Longrightarrow> sids_below (run ops w)"
  by (induction ops arbitrary: w) (simp_all add: step_sids_below)

subsection \<open>Disconnecting\<close>

text \<open>
  C9. In every state \<open>w\<close> a session can reach, \<open>disconnect\<close> clears the channel handle
  and leaves the notification list (and the subscribers) unchanged; with no channel open it
  changes nothing at all; with a channel open it closes that socket, which joins the closed
  ones marked inactive. Because the handle is cleared, a subsequent \<open>connect\<close> is never
  stopped by the guard, and with a profile whose properties can be read it opens a channel
  that is active, has emitted nothing and is none of the closed sockets, the notification
  list still being the one before the disconnect.
\<close>

theorem disconnect_spec:
  fixes ops :: "op list"
  defines "w \<equiv> run ops initial"
  shows "socket (disconnect w) = None
    \<and> notifications (disconnect w) = notifications w
    \<and> listeners (disconnect w) = listeners w
    \<and> (socket w = None \<longrightarrow> disconnect w = w)
    \<and> (\<forall>so. socket w = Some so \<longrightarrow> closed (disconnect w) = closed w @ [so\<lparr>active := False\<rparr>])
    \<and> connect env uid r userProfile (disconnect w) \<noteq> Inr (disconnect w)
    \<and> (userProfile \<noteq> JUndefined \<and> userProfile \<noteq> JNull \<longrightarrow>
         (\<exists>w' so'. connect env uid r userProfile (disconnect w) = Inr w'
            \<and> socket w' = Some so' \<and> active so' \<and> emitted so' = []
            \<and> sid so' \<notin> sid ` set (closed w')
            \<and> io_calls w' = Suc (io_calls w)
            \<and> notifications w' = notifications w))"
proof -
  have inv: "sids_below (disconnect w)"
    using step_sids_below [of w Disconnect] run_sids_below [OF sids_below_initial, of ops]
    by (simp add: w_def)
  have none: "socket (disconnect w) = None"
    by (simp add: disconnect_def split: option.splits)
  have frame: "notifications (disconnect w) = notifications w
     \<and> listeners (disconnect w) = listeners w
     \<and> io_calls (disconnect w) = io_calls w"
    by (simp add: disconnect_def split: option.splits)
  have noop: "socket w = None \<longrightarrow> disconnect w = w"
    by (simp add: disconnect_def)
  have close: "\<forall>so. socket w = Some so \<longrightarrow>
      closed (disconnect w) = closed w @ [so\<lparr>active := False\<rparr>]"
    by (simp add: disconnect_def)
  have fresh: "\<exists>w' so'. connect env uid r userProfile (disconnect w) = Inr w'
            \<and> socket w' = Some so' \<and> active so' \<and> emitted so' = []
            \<and> sid so' \<notin> sid ` set (closed w')
            \<and> io_calls w' = Suc (io_calls w)
            \<and> notifications w' = notifications w"
    if ok: "userProfile \<noteq> JUndefined" "userProfile \<noteq> JNull"
  proof -
    obtain bt where bt: "js_get userProfile ''bloodType'' = Inr bt"
      using js_get_ok [OF ok] by blast
    obtain loc where loc: "js_get userProfile ''location'' = Inr loc"
      using js_get_ok [OF ok] by blast
    from inv have "\<forall>so \<in> set (closed (disconnect w)). sid so \<noteq> io_calls (disconnect w)"
      by (auto simp: sids_below_def)
    then show ?thesis using none frame bt loc
      by (auto simp: connect_def io_def on_def)
  qed
  have guard: "connect env uid r userProfile (disconnect w) \<noteq> Inr (disconnect w)"
  proof (cases "userProfile = JUndefined \<or> userProfile = JNull")
    case True
    then show ?thesis using none by (auto simp: connect_def)
  next
    case False
    with fresh obtain w' so' where "connect env uid r userProfile (disconnect w) = Inr w'"
      and "socket w' = Some so'" by blast
    with none show ?thesis by auto
  qed
  from none frame noop close guard fresh show ?thesis by blast
qed

theorem disconnect_spec_witness:
  "socket (disconnect connected_world) = None
   \<and> notifications (disconnect connected_world) = notifications connected_world
   \<and> closed (disconnect connected_world) =
       [\<lparr> sid = 0, url = ''http://localhost:5000'',
          sock_auth = \<lparr> userId = ''u1'', userRole = ''donor'',
                        auth_bloodType = JStr ''O-'', auth_location = JStr ''Pune'' \<rparr>,
          handlers = [''connect'', ''blood_request_match'', ''donation_accepted'',
                      ''request_fulfilled''],
          emitted = [], active = False \<rparr>]
   \<and> donor_profile \<noteq> JUndefined \<and> donor_profile \<noteq> JNull
   \<and> (\<exists>w' so'. connect None ''u1'' ''donor'' donor_profile (disconnect connected_world) = Inr w'
          \<and> socket w' = Some so' \<and> active so' \<and> emitted so' = []
          \<and> sid so' \<notin> sid ` set (closed w')
          \<and> io_calls w' = Suc (io_calls connected_world))"
proof -
  have w: "run [Connect None ''u1'' ''donor'' donor_profile] initial = connected_world"
    by (simp add: connected_world_def)
  show ?thesis
    using disconnect_spec [where ops = "[Connect None ''u1'' ''donor'' donor_profile]"
        and userProfile = donor_profile and env = None and uid = "''u1''" and r = "''donor''"]
    unfolding w
    by (auto simp: connected_world_eq donor_profile_def disconnect_def)
qed

subsection \<open>Responding to a blood request\<close>

lemma outbox_respond:
  "socket w = Some so \<Longrightarrow>
   outbox (respondToBloodRequest rid resp info w) =
     outbox w @ [\<lparr> out_event = ''donor_response'', out_requestId = rid,
                   out_response = resp, out_donorInfo = info \<rparr>]"
  by (simp add: outbox_def respondToBloodRequest_def emit_def)

lemma respond_frame:
  "notifications (respondToBloodRequest rid resp info w) = notifications w
   \<and> listeners (respondToBloodRequest rid resp info w) = listeners w"
  by (simp add: respondToBloodRequest_def split: option.splits)

text \<open>
  C4. With no channel open \<open>respondToBloodRequest\<close> returns the world it was given: no
  event is emitted and nothing changes. With a channel open it adds exactly one event to
  what the service has emitted, a \<open>donor_response\<close> carrying the request identifier, the
  response and the donor information it was called with, and leaves the notification list
  and the subscribers alone. In particular, when a donor (a profile that is an actual
  value) accepts a request (the data of a notification) on an open channel,
  \<open>handleAcceptBloodRequest\<close> emits exactly one event, with response \<open>accept\<close>, the
  identifier of the request, and a donor information whose \<open>id\<close>, \<open>name\<close>, \<open>phone\<close> and
  \<open>bloodType\<close> are the profile's \<open>id\<close>, \<open>fullName\<close>, \<open>phoneNumber\<close> and \<open>bloodType\<close>.
\<close>

theorem respondToBloodRequest_spec:
  "(socket w = None \<longrightarrow> respondToBloodRequest rid resp info w = w)
   \<and> (\<forall>so. socket w = Some so \<longrightarrow>
         outbox (respondToBloodRequest rid resp info w) =
           outbox w @ [\<lparr> out_event = ''donor_response'', out_requestId = rid,
                         out_response = resp, out_donorInfo = info \<rparr>]
         \<and> notifications (respondToBloodRequest rid resp info w) = notifications w
         \<and> listeners (respondToBloodRequest rid resp info w) = listeners w)
   \<and> (\<forall>so. socket w = Some so \<and> userProfile \<noteq> JUndefined \<and> userProfile \<noteq> JNull
          \<and> requestData \<noteq> JUndefined \<and> requestData \<noteq> JNull \<longrightarrow>
         (\<exists>w' e. handleAcceptBloodRequest userProfile requestData w = Inr w'
            \<and> outbox w' = outbox w @ [e]
            \<and> out_event e = ''donor_response''
            \<and> out_response e = accept
            \<and> Inr (out_requestId e) = js_get requestData ''id''
            \<and> js_get (out_donorInfo e) ''id'' = js_get userProfile ''id''
            \<and> js_get (out_donorInfo e) ''name'' = js_get userProfile ''fullName''
            \<and> js_get (out_donorInfo e) ''phone'' = js_get userProfile ''phoneNumber''
            \<and> js_get (out_donorInfo e) ''bloodType'' = js_get userProfile ''bloodType''))"
proof -
  have noop: "socket w = None \<longrightarrow> respondToBloodRequest rid resp info w = w"
    by (simp add: respondToBloodRequest_def)
  have one: "\<forall>so. socket w = Some so \<longrightarrow>
         outbox (respondToBloodRequest rid resp info w) =
           outbox w @ [\<lparr> out_event = ''donor_response'', out_requestId = rid,
                         out_response = resp, out_donorInfo = info \<rparr>]
         \<and> notifications (respondToBloodRequest rid resp info w) = notifications w
         \<and> listeners (respondToBloodRequest rid resp info w) = listeners w"
    by (simp add: outbox_respond respond_frame)
  have acc: "\<exists>w' e. handleAcceptBloodRequest userProfile requestData w = Inr w'
            \<and> outbox w' = outbox w @ [e]
            \<and> out_event e = ''donor_response''
            \<and> out_response e = accept
            \<and> Inr (out_requestId e) = js_get requestData ''id''
            \<and> js_get (out_donorInfo e) ''id'' = js_get userProfile ''id''
            \<and> js_get (out_donorInfo e) ''name'' = js_get userProfile ''fullName''
            \<and> js_get (out_donorInfo e) ''phone'' = js_get userProfile ''phoneNumber''
            \<and> js_get (out_donorInfo e) ''bloodType'' = js_get userProfile ''bloodType''"
    if so: "socket w = Some so" and up: "userProfile \<noteq> JUndefined" "userProfile \<noteq> JNull"
      and rd: "requestData \<noteq> JUndefined" "requestData \<noteq> JNull" for so
  proof -
    obtain rid' where 1: "js_get requestData ''id'' = Inr rid'"
      using js_get_ok [OF rd] by blast
    obtain uid where 2: "js_get userProfile ''id'' = Inr uid"
      using js_get_ok [OF up] by blast
    obtain nm where 3: "js_get userProfile ''fullName'' = Inr nm"
      using js_get_ok [OF up] by blast
    obtain ph where 4: "js_get userProfile ''phoneNumber'' = Inr ph"
      using js_get_ok [OF up] by blast
    obtain bt where 5: "js_get userProfile ''bloodType'' = Inr bt"
      using js_get_ok [OF up] by blast
    show ?thesis
      by (simp add: handleAcceptBloodRequest_def 1 2 3 4 5 outbox_respond [OF so])
  qed
  from noop one acc show ?thesis by blast
qed

theorem respondToBloodRequest_spec_witness:
  "respondToBloodRequest (JStr ''7'') decline JNull initial = initial
   \<and> outbox connected_world = []
   \<and> outbox (respondToBloodRequest (JStr ''7'') decline JNull connected_world) =
       [\<lparr> out_event = ''donor_response'', out_requestId = JStr ''7'',
          out_response = decline, out_donorInfo = JNull \<rparr>]
   \<and> (\<exists>w' e. handleAcceptBloodRequest donor_profile (BloodRequest_js example_request)
                connected_world = Inr w'
          \<and> outbox w' = [e]
          \<and> out_event e = ''donor_response''
          \<and> out_response e = accept
          \<and> out_requestId e = JStr ''7''
          \<and> js_get (out_donorInfo e) ''id'' = Inr (JStr ''u1'')
          \<and> js_get (out_donorInfo e) ''name'' = Inr (JStr ''Asha Rao'')
          \<and> js_get (out_donorInfo e) ''phone'' = Inr (JStr ''555-0101'')
          \<and> js_get (out_donorInfo e) ''bloodType'' = Inr (JStr ''O-''))"
proof -
  have empty: "outbox connected_world = []"
    by (simp add: outbox_def connected_world_eq)
  have "socket initial = None"
    by (simp add: initial_def)
  then have a: "respondToBloodRequest (JStr ''7'') decline JNull initial = initial"
    using respondToBloodRequest_spec [of initial "JStr ''7''" decline JNull] by blast
  have so: "\<exists>so. socket connected_world = Some so"
    by (simp add: connected_world_eq)
  then have b: "outbox (respondToBloodRequest (JStr ''7'') decline JNull connected_world) =
       [\<lparr> out_event = ''donor_response'', out_requestId = JStr ''7'',
          out_response = decline, out_donorInfo = JNull \<rparr>]"
    using respondToBloodRequest_spec [of connected_world "JStr ''7''" decline JNull] empty
    by auto
  have ok: "donor_profile \<noteq> JUndefined \<and> donor_profile \<noteq> JNull
      \<and> BloodRequest_js example_request \<noteq> JUndefined \<and> BloodRequest_js example_request \<noteq> JNull"
    by (simp add: donor_profile_def BloodRequest_js_def)
  from so ok
  have "\<exists>w' e. handleAcceptBloodRequest donor_profile (BloodRequest_js example_request)
                connected_world = Inr w'
            \<and> outbox w' = outbox connected_world @ [e]
            \<and> out_event e = ''donor_response''
            \<and> out_response e = accept
            \<and> Inr (out_requestId e) = js_get (BloodRequest_js example_request) ''id''
            \<and> js_get (out_donorInfo e) ''id'' = js_get donor_profile ''id''
            \<and> js_get (out_donorInfo e) ''name'' = js_get donor_profile ''fullName''
            \<and> js_get (out_donorInfo e) ''phone'' = js_get donor_profile ''phoneNumber''
            \<and> js_get (out_donorInfo e) ''bloodType'' = js_get donor_profile ''bloodType''"
    using respondToBloodRequest_spec [of connected_world _ _ _ donor_profile
        "BloodRequest_js example_request"]
    by blast
  then have c: "\<exists>w' e. handleAcceptBloodRequest donor_profile (BloodRequest_js example_request)
                connected_world = Inr w'
          \<and> outbox w' = [e]
          \<and> out_event e = ''donor_response''
          \<and> out_response e = accept
          \<and> out_requestId e = JStr ''7''
          \<and> js_get (out_donorInfo e) ''id'' = Inr (JStr ''u1'')
          \<and> js_get (out_donorInfo e) ''name'' = Inr (JStr ''Asha Rao'')
          \<and> js_get (out_donorInfo e) ''phone'' = Inr (JStr ''555-0101'')
          \<and> js_get (out_donorInfo e) ''bloodType'' = Inr (JStr ''O-'')"
    by (simp add: empty donor_profile_def BloodRequest_js_def example_request_def)
  from a empty b c show ?thesis by blast
qed

subsection \<open>Events on a connected service\<close>

lemma event_name_cases:
  "event_name e = ''blood_request_match'' \<or> event_name e = ''donation_accepted''
   \<or> event_name e = ''request_fulfilled''"
  by (cases e) simp_all

lemma receive_connected: "connected w \<Longrightarrow> receive a w = handle_event a w"
  using event_name_cases [of "ev a"]
  by (auto simp: connected_def receive_def split: option.splits)



subsection \<open>The read flag only goes from false to true\<close>

lemma kept_iff:
  "kept old new \<longleftrightarrow> (\<exists>added rest. new = added @ rest \<and> list_all2 same_but_read old rest)"
proof
  assume k: "kept old new"
  then have "new = take (length new - length old) new @ drop (length new - length old) new"
    by simp
  with k show "\<exists>added rest. new = added @ rest \<and> list_all2 same_but_read old rest"
    unfolding kept_def by blast
next
  assume "\<exists>added rest. new = added @ rest \<and> list_all2 same_but_read old rest"
  then obtain added rest where n: "new = added @ rest" and r: "list_all2 same_but_read old rest"
    by blast
  from r have "length old = length rest" by (rule list_all2_lengthD)
  with n r show "kept old new" by (simp add: kept_def)
qed

lemma same_but_read_refl: "same_but_read a a"
  by (simp add: same_but_read_def)

lemma same_but_read_trans: "same_but_read a b \<Longrightarrow> same_but_read b c \<Longrightarrow> same_but_read a c"
  by (auto simp: same_but_read_def)

lemma kept_refl: "kept xs xs"
  by (simp add: kept_def list_all2_refl same_but_read_refl)

lemma kept_trans:
  assumes "kept xs ys" and "kept ys zs"
  shows "kept xs zs"
proof -
  from assms(1) obtain a1 r1 where ys: "ys = a1 @ r1" and 1: "list_all2 same_but_read xs r1"
    unfolding kept_iff by blast
  from assms(2) obtain a2 r2 where zs: "zs = a2 @ r2" and 2: "list_all2 same_but_read ys r2"
    unfolding kept_iff by blast
  from 2 ys obtain u v where r2: "r2 = u @ v" and v: "list_all2 same_but_read r1 v"
    by (auto simp: list_all2_append1)
  from 1 v have "list_all2 same_but_read xs v"
    by (rule list_all2_trans [rotated]) (rule same_but_read_trans)
  with zs r2 have "zs = (a2 @ u) @ v \<and> list_all2 same_but_read xs v" by simp
  then show ?thesis unfolding kept_iff by blast
qed

lemma kept_Cons: "kept xs (n # xs)"
  unfolding kept_iff using list_all2_refl [of same_but_read xs] same_but_read_refl
  by (metis append_Cons append_Nil)

lemma kept_markAsRead:
  "kept xs (map (\<lambda>n. if nid n = i then n\<lparr>read := True\<rparr> else n) xs)"
  by (simp add: kept_def list_all2_map2 same_but_read_def list_all2_refl)

lemma handle_event_kept: "handle_event a w = Inr w' \<Longrightarrow> kept (notifications w) (notifications w')"
  by (auto simp: handle_event_def showToastNotification_def showBrowserNotification_def
      addNotification_def notifyListeners_def kept_Cons split: sum.splits)

lemma step_kept: "kept (notifications w) (notifications (step x w))"
proof (cases x)
  case (Connect env uid r p)
  then show ?thesis
    by (cases "connect env uid r p w") (auto simp: or_unchanged_def kept_refl dest: connect_cases)
next
  case (Receive a)
  then show ?thesis
    by (cases "receive a w")
      (auto simp: or_unchanged_def kept_refl receive_def handle_event_kept
        split: option.splits if_splits)
next
  case (MarkAsRead i)
  then show ?thesis by (simp add: markAsRead_def notifyListeners_def kept_markAsRead)
qed (simp_all add: respond_frame subscribe_def unsubscribe_def disconnect_def kept_refl
      split: option.splits)

lemma run_kept: "kept (notifications w) (notifications (run ops w))"
proof (induction ops arbitrary: w)
  case Nil
  show ?case by (simp add: kept_refl)
next
  case (Cons x xs)
  from step_kept [of w x] Cons [of "step x w"] show ?case
    by (simp add: kept_trans)
qed

lemma kept_read:
  assumes "kept old new" and "i < length old" and "read (old ! i)"
  shows "read (new ! (i + (length new - length old)))"
proof -
  from assms(1) have le: "length old \<le> length new"
    and all: "list_all2 same_but_read old (drop (length new - length old) new)"
    by (simp_all add: kept_def)
  from all assms(2) have "same_but_read (old ! i) (drop (length new - length old) new ! i)"
    by (rule list_all2_nthD)
  moreover from le assms(2) have "drop (length new - length old) new ! i = new ! ((length new - length old) + i)"
    by simp
  ultimately show ?thesis using assms(3) by (auto simp: same_but_read_def add.commute)
qed

text \<open>
  C7. Over any sequence of operations of a session (connecting, event handling,
  \<open>markAsRead\<close>, \<open>respondToBloodRequest\<close>, subscribing, unsubscribing,
  \<open>disconnect\<close>), every record of the notification list is still in the list, behind the
  records added since, and is what it was or has had its read flag set; so a record whose
  read flag is true keeps it true.
\<close>

theorem read_flag_monotonic:
  "kept (notifications w) (notifications (run ops w))
   \<and> (\<forall>i < length (notifications w). read (notifications w ! i) \<longrightarrow>
        read (notifications (run ops w) !
               (i + (length (notifications (run ops w)) - length (notifications w)))))"
  using run_kept [of w ops] kept_read [of "notifications w" "notifications (run ops w)"]
  by blast

theorem read_flag_monotonic_witness:
  "0 < length (notifications world_with_read)
   \<and> read (notifications world_with_read ! 0)
   \<and> length (notifications
        (run [Receive match_arrival, MarkAsRead ''ful_r0_500'', Disconnect] world_with_read)) = 2
   \<and> read (notifications
        (run [Receive match_arrival, MarkAsRead ''ful_r0_500'', Disconnect] world_with_read) ! 1)"
proof -
  have n: "notifications world_with_read = [read_notification]"
    by (simp add: world_with_read_def)
  have c: "connected world_with_read"
    by (simp add: connected_def world_with_read_def connected_world_eq)
  have len: "length (notifications
        (run [Receive match_arrival, MarkAsRead ''ful_r0_500'', Disconnect] world_with_read)) = 2"
    by (simp add: receive_connected [OF c] or_unchanged_def handle_event_def
        event_notification_def match_arrival_def blood_request_notification_def and_then_def
        BloodRequest_js_def example_request_def showToastNotification_def
        showBrowserNotification_def addNotification_def notifyListeners_def markAsRead_def
        disconnect_def n split: option.splits)
  have r: "read (notifications world_with_read ! 0)"
    by (simp add: n read_notification_def)
  from read_flag_monotonic [of world_with_read
      "[Receive match_arrival, MarkAsRead ''ful_r0_500'', Disconnect]"] r len n
  show ?thesis by simp
qed

subsection \<open>Unsubscribing\<close>

lemma count_list_filter:
  "count_list (filter P xs) l = (if P l then count_list xs l else 0)"
  by (induction xs) auto

lemma handle_event_calls:
  "handle_event a w = Inr w' \<Longrightarrow>
     \<exists>new. delivered w' = delivered w @ new \<and> fst ` set new \<subseteq> set (listeners w)"
  by (auto simp: handle_event_def showToastNotification_def showBrowserNotification_def
      addNotification_def notifyListeners_def split: sum.splits)

lemma step_calls:
  "\<exists>new. delivered (step x w) = delivered w @ new \<and> fst ` set new \<subseteq> set (listeners w)"
proof (cases x)
  case (Connect env uid r p)
  then show ?thesis
    by (cases "connect env uid r p w") (auto simp: or_unchanged_def dest: connect_cases)
next
  case (Receive a)
  show ?thesis
  proof (cases "receive a w")
    case (Inl e)
    with Receive show ?thesis by (simp add: or_unchanged_def)
  next
    case (Inr w')
    then have "w' = w \<or> handle_event a w = Inr w'"
      by (auto simp: receive_def split: option.splits if_splits)
    with Receive Inr handle_event_calls [of a w w'] show ?thesis
      by (auto simp: or_unchanged_def)
  qed
next
  case (MarkAsRead i)
  then show ?thesis by (auto simp: markAsRead_def notifyListeners_def)
qed (simp_all add: respondToBloodRequest_def subscribe_def unsubscribe_def disconnect_def
      split: option.splits)

lemma step_listeners:
  "x \<noteq> Subscribe c \<Longrightarrow> c \<notin> set (listeners w) \<Longrightarrow> c \<notin> set (listeners (step x w))"
proof (cases x)
  case (Connect env uid r p)
  assume "c \<notin> set (listeners w)"
  with Connect show ?thesis
    by (cases "connect env uid r p w") (auto simp: or_unchanged_def dest: connect_cases)
next
  case (Receive a)
  assume "c \<notin> set (listeners w)"
  with Receive show ?thesis
    by (cases "receive a w") (auto simp: or_unchanged_def dest: receive_frame)
qed (auto simp: respondToBloodRequest_def markAsRead_def notifyListeners_def subscribe_def
      unsubscribe_def disconnect_def split: option.splits)

lemma run_calls:
  "Subscribe c \<notin> set ops \<Longrightarrow> c \<notin> set (listeners w) \<Longrightarrow>
     \<exists>new. delivered (run ops w) = delivered w @ new \<and> c \<notin> fst ` set new"
proof (induction ops arbitrary: w)
  case Nil
  then show ?case by simp
next
  case (Cons x xs)
  from Cons.prems have x: "x \<noteq> Subscribe c" and xs: "Subscribe c \<notin> set xs" by auto
  obtain n1 where n1: "delivered (step x w) = delivered w @ n1"
    and s1: "fst ` set n1 \<subseteq> set (listeners w)"
    using step_calls [of x w] by blast
  from step_listeners [OF x Cons.prems(2)] have "c \<notin> set (listeners (step x w))" .
  from Cons.IH [OF xs this] obtain n2
    where n2: "delivered (run xs (step x w)) = delivered (step x w) @ n2"
      and s2: "c \<notin> fst ` set n2" by blast
  from s1 Cons.prems(2) have "c \<notin> fst ` set n1" by blast
  with n1 n2 s2 have "delivered (run (x # xs) w) = delivered w @ (n1 @ n2) \<and> c \<notin> fst ` set (n1 @ n2)"
    by auto
  then show ?case by blast
qed

text \<open>
  C3. Let \<open>u\<close> be the unsubscribe operation that \<open>subscribe c\<close> returned, at any time.
  Invoked in any world \<open>w\<close>, whatever subscriptions \<open>w\<close> holds (of other callbacks, or
  of \<open>c\<close> itself, once or several times), \<open>u\<close> removes \<open>c\<close> from the subscribers and
  nothing else: every other callback keeps its subscriptions, in number and order, and no
  other part of the world changes. From then on, as long as \<open>c\<close> is not subscribed anew,
  no operation of the session (event arrival, \<open>markAsRead\<close> or any other) calls \<open>c\<close>.
\<close>

theorem unsubscribe_removes_callback:
  assumes "u = snd (subscribe c w0)"
  shows "set (listeners (u w)) = set (listeners w) - {c}
     \<and> listeners (u w) = removeAll c (listeners w)
     \<and> (\<forall>l. l \<noteq> c \<longrightarrow> count_list (listeners (u w)) l = count_list (listeners w) l)
     \<and> u w = w\<lparr>listeners := listeners (u w)\<rparr>
     \<and> (Subscribe c \<notin> set ops \<longrightarrow> c \<notin> fst ` set (calls_since (u w) (run ops (u w))))"
proof -
  from assms have u: "u = unsubscribe c" by (simp add: subscribe_def)
  have l: "listeners (u w) = filter (\<lambda>l. l \<noteq> c) (listeners w)"
    by (simp add: u unsubscribe_def)
  have 1: "set (listeners (u w)) = set (listeners w) - {c}"
    using l by auto
  have 2: "listeners (u w) = removeAll c (listeners w)"
    using l by (simp add: removeAll_filter_not_eq) metis
  have 3: "\<forall>l. l \<noteq> c \<longrightarrow> count_list (listeners (u w)) l = count_list (listeners w) l"
    using l by (simp add: count_list_filter)
  have 4: "u w = w\<lparr>listeners := listeners (u w)\<rparr>"
    by (simp add: u unsubscribe_def)
  have 5: "c \<notin> fst ` set (calls_since (u w) (run ops (u w)))" if "Subscribe c \<notin> set ops"
  proof -
    from 1 have "c \<notin> set (listeners (u w))" by simp
    from run_calls [OF that this] obtain new
      where "delivered (run ops (u w)) = delivered (u w) @ new" and "c \<notin> fst ` set new"
      by blast
    then show ?thesis by (simp add: calls_since_def)
  qed
  from 1 2 3 4 5 show ?thesis by blast
qed

lemma subscribed_world_eq:
  "subscribed_world = connected_world\<lparr>listeners := [1, 2, 1]\<rparr>"
  by (simp add: subscribed_world_def subscribe_def connected_world_eq)

theorem unsubscribe_removes_callback_witness:
  "listeners subscribed_world = [1, 2, 1]
   \<and> listeners (snd (subscribe 1 connected_world) subscribed_world) = [2]
   \<and> Subscribe 1 \<notin> set [Receive fulfilled_arrival, MarkAsRead ''ful_r0_500'']
   \<and> map fst (calls_since (snd (subscribe 1 connected_world) subscribed_world)
        (run [Receive fulfilled_arrival, MarkAsRead ''ful_r0_500'']
          (snd (subscribe 1 connected_world) subscribed_world))) = [2, 2]
   \<and> 1 \<notin> fst ` set (calls_since (snd (subscribe 1 connected_world) subscribed_world)
        (run [Receive fulfilled_arrival, MarkAsRead ''ful_r0_500'']
          (snd (subscribe 1 connected_world) subscribed_world)))"
proof -
  let ?u = "snd (subscribe 1 connected_world)"
  let ?ops = "[Receive fulfilled_arrival, MarkAsRead ''ful_r0_500'']"
  have uw: "?u subscribed_world = connected_world\<lparr>listeners := [2]\<rparr>"
    by (simp add: subscribe_def unsubscribe_def subscribed_world_eq)
  have calls: "map fst (calls_since (?u subscribed_world) (run ?ops (?u subscribed_world))) = [2, 2]"
    unfolding uw
    by (simp add: calls_since_def receive_def or_unchanged_def handle_event_def
        event_notification_def and_then_def
        fulfilled_arrival_def request_fulfilled_notification_def showToastNotification_def
        showBrowserNotification_def addNotification_def notifyListeners_def markAsRead_def
        connected_world_eq)
  have ops: "Subscribe 1 \<notin> set ?ops" by simp
  from unsubscribe_removes_callback [of ?u 1 connected_world subscribed_world ?ops] ops calls
  show ?thesis by (simp add: subscribed_world_eq)
qed

subsection \<open>Inbound events\<close>













subsection \<open>New notifications are unread\<close>






section \<open>Properties of the profile settings view\<close>

lemma trim_trimmed: "trimmed s (trim s)"
proof -
  let ?p = "takeWhile js_whitespace s"
  let ?m = "dropWhile js_whitespace s"
  let ?q = "rev (takeWhile js_whitespace (rev ?m))"
  have t: "trim s = rev (dropWhile js_whitespace (rev ?m))"
    by (simp add: trim_def)
  have "rev ?m = takeWhile js_whitespace (rev ?m) @ dropWhile js_whitespace (rev ?m)"
    by simp
  then have "?m = rev (dropWhile js_whitespace (rev ?m)) @ ?q"
    by (metis rev_append rev_rev_ident)
  then have m: "?m = trim s @ ?q"
    by (simp only: t)
  have s: "s = ?p @ trim s @ ?q"
    using m takeWhile_dropWhile_id [of js_whitespace s] by metis
  have p: "list_all js_whitespace ?p"
    by (auto simp: list_all_iff dest: set_takeWhileD)
  have q: "list_all js_whitespace ?q"
    by (auto simp: list_all_iff dest: set_takeWhileD)
  have ends: "js_whitespace (hd (trim s)) = False \<and> js_whitespace (last (trim s)) = False"
    if ne: "trim s \<noteq> []"
  proof -
    from ne have d: "dropWhile js_whitespace (rev ?m) \<noteq> []" by (simp add: t)
    then have "\<not> js_whitespace (hd (dropWhile js_whitespace (rev ?m)))"
      by (rule hd_dropWhile)
    with d have l: "\<not> js_whitespace (last (trim s))"
      by (simp add: t last_rev)
    from ne m have mne: "?m \<noteq> []" by (metis Nil_is_append_conv)
    then have "\<not> js_whitespace (hd ?m)" by (rule hd_dropWhile)
    moreover from m ne have "hd ?m = hd (trim s)"
      by (metis hd_append2)
    ultimately show ?thesis using l by simp
  qed
  from s p q ends show ?thesis unfolding trimmed_def by blast
qed

lemma thrown_iff: "thrown_by_update msg outcome = None \<longleftrightarrow> update_succeeded outcome"
  by (auto simp: thrown_by_update_def update_succeeded_def
      split: update_outcome.splits sum.splits js_error.splits)

lemma jane_doe: "trim (code_units ''  Jane Doe  '') = code_units ''Jane Doe''"
  by (simp add: trim_def js_whitespace_def code_units_def)

lemma handleSave_calls:
  "update_calls (fst (handleSave userProfile msg outcome c)) =
     update_calls c @ [build_updateData userProfile (form c)]"
  by (simp add: handleSave_def Let_def split: option.splits sum.splits)

lemma handleSave_success:
  "update_succeeded outcome \<Longrightarrow>
     isEditing (fst (handleSave userProfile msg outcome c)) = False
     \<and> refreshes (fst (handleSave userProfile msg outcome c)) = Suc (refreshes c)
     \<and> snd (handleSave userProfile msg outcome c) = None"
  using thrown_iff [of msg outcome] by (simp add: handleSave_def Let_def)

lemma handleSave_failure:
  "\<not> update_succeeded outcome \<Longrightarrow>
     isEditing (fst (handleSave userProfile msg outcome c)) = isEditing c
     \<and> refreshes (fst (handleSave userProfile msg outcome c)) = refreshes c"
  using thrown_iff [of msg outcome]
  by (auto simp: handleSave_def Let_def split: option.splits sum.splits)

text \<open>
  C6. \<open>handleSave\<close> issues exactly one update call. Its payload has the full name, the
  phone number and the location of the draft without the white space (of JavaScript: ASCII
  and Unicode) at their ends; it has
  the blood type and the availability of the draft when the role is donor and neither
  otherwise; it has the organization name, trimmed, and the organization type when the role
  is clinic and neither otherwise; a full name \<open>"  Jane Doe  "\<close> goes out as
  \<open>"Jane Doe"\<close>. When the update succeeds the view leaves edit mode and the refresh
  callback is called once; when it fails the edit mode is what it was (active, when the
  user was editing) and the callback is not called.
\<close>

theorem handleSave_spec:
  "\<exists>p. update_calls (fst (handleSave userProfile msg outcome c)) = update_calls c @ [p]
     \<and> ud_fullName p = trim (fd_fullName (form c))
     \<and> trimmed (fd_fullName (form c)) (ud_fullName p)
     \<and> trimmed (fd_phoneNumber (form c)) (ud_phoneNumber p)
     \<and> trimmed (fd_location (form c)) (ud_location p)
     \<and> (up_role userProfile = donor \<longrightarrow>
          ud_bloodType p = Some (fd_bloodType (form c))
          \<and> ud_isAvailable p = Some (fd_isAvailable (form c)))
     \<and> (up_role userProfile \<noteq> donor \<longrightarrow> ud_bloodType p = None \<and> ud_isAvailable p = None)
     \<and> (up_role userProfile = clinic \<longrightarrow>
          (\<exists>name. ud_organizationName p = Some name
             \<and> trimmed (fd_organizationName (form c)) name)
          \<and> ud_organizationType p = Some (fd_organizationType (form c)))
     \<and> (up_role userProfile \<noteq> clinic \<longrightarrow>
          ud_organizationName p = None \<and> ud_organizationType p = None)
     \<and> (fd_fullName (form c) = code_units ''  Jane Doe  '' \<longrightarrow>
          ud_fullName p = code_units ''Jane Doe'')
     \<and> (update_succeeded outcome \<longrightarrow>
          isEditing (fst (handleSave userProfile msg outcome c)) = False
          \<and> refreshes (fst (handleSave userProfile msg outcome c)) = Suc (refreshes c))
     \<and> (\<not> update_succeeded outcome \<longrightarrow>
          isEditing (fst (handleSave userProfile msg outcome c)) = isEditing c
          \<and> refreshes (fst (handleSave userProfile msg outcome c)) = refreshes c)"
proof -
  let ?p = "build_updateData userProfile (form c)"
  have fields: "ud_fullName ?p = trim (fd_fullName (form c))"
    "trimmed (fd_fullName (form c)) (ud_fullName ?p)"
    "trimmed (fd_phoneNumber (form c)) (ud_phoneNumber ?p)"
    "trimmed (fd_location (form c)) (ud_location ?p)"
    by (simp_all add: build_updateData_def trim_trimmed)
  have donor: "up_role userProfile = donor \<longrightarrow>
          ud_bloodType ?p = Some (fd_bloodType (form c))
          \<and> ud_isAvailable ?p = Some (fd_isAvailable (form c))"
    "up_role userProfile \<noteq> donor \<longrightarrow> ud_bloodType ?p = None \<and> ud_isAvailable ?p = None"
    by (simp_all add: build_updateData_def)
  have clinic: "up_role userProfile = clinic \<longrightarrow>
          (\<exists>name. ud_organizationName ?p = Some name
             \<and> trimmed (fd_organizationName (form c)) name)
          \<and> ud_organizationType ?p = Some (fd_organizationType (form c))"
    "up_role userProfile \<noteq> clinic \<longrightarrow>
          ud_organizationName ?p = None \<and> ud_organizationType ?p = None"
    by (simp_all add: build_updateData_def trim_trimmed)
  have doe: "fd_fullName (form c) = code_units ''  Jane Doe  '' \<longrightarrow>
      ud_fullName ?p = code_units ''Jane Doe''"
    by (simp add: build_updateData_def jane_doe)
  from handleSave_calls [of userProfile msg outcome c] fields donor clinic doe
    handleSave_success [of outcome userProfile msg c]
    handleSave_failure [of outcome userProfile msg c]
  show ?thesis by blast
qed

theorem handleSave_spec_witness:
  "fd_fullName (form jane_editing) = code_units ''  Jane Doe  ''
   \<and> up_role jane = donor \<and> isEditing jane_editing
   \<and> update_succeeded (resolves (JObj [(''error'', JNull)]))
   \<and> update_succeeded (resolves (JObj [(''error'', JStr ''permission denied'')])) = False
   \<and> (\<exists>p. update_calls (fst (handleSave jane ''e'' (resolves (JObj [(''error'', JNull)]))
                 jane_editing)) = [p]
         \<and> ud_fullName p = code_units ''Jane Doe''
         \<and> ud_bloodType p = Some (code_units ''A+'')
         \<and> ud_organizationName p = None)
   \<and> isEditing (fst (handleSave jane ''e'' (resolves (JObj [(''error'', JNull)])) jane_editing))
       = False
   \<and> refreshes (fst (handleSave jane ''e'' (resolves (JObj [(''error'', JNull)])) jane_editing))
       = 1
   \<and> isEditing (fst (handleSave jane ''e''
         (resolves (JObj [(''error'', JStr ''permission denied'')])) jane_editing)) = True
   \<and> refreshes (fst (handleSave jane ''e''
         (resolves (JObj [(''error'', JStr ''permission denied'')])) jane_editing)) = 0
   \<and> (\<exists>p. update_calls (fst (handleSave jane ''e'' (resolves (JObj [(''error'', JNull)]))
                 jane_nbsp_editing)) = [p]
         \<and> ud_fullName p = code_units ''Jane'')"
proof -
  have g: "fd_fullName (form jane_nbsp_editing) = [0x00A0] @ code_units ''Jane'' @ [0x00A0]"
    "update_calls jane_nbsp_editing = []"
    by (simp_all add: jane_nbsp_editing_def mount_def)
  have t: "trim ([0x00A0] @ code_units ''Jane'' @ [0x00A0]) = code_units ''Jane''"
    by (simp add: trim_def js_whitespace_def code_units_def)
  from handleSave_spec [of jane "''e''" "resolves (JObj [(''error'', JNull)])" jane_nbsp_editing]
    g t
  have nbsp: "\<exists>p. update_calls (fst (handleSave jane ''e'' (resolves (JObj [(''error'', JNull)]))
                 jane_nbsp_editing)) = [p]
         \<and> ud_fullName p = code_units ''Jane''"
    by auto
  have f: "fd_fullName (form jane_editing) = code_units ''  Jane Doe  ''" "up_role jane = donor"
    "isEditing jane_editing" "refreshes jane_editing = 0" "update_calls jane_editing = []"
    "fd_bloodType (form jane_editing) = code_units ''A+''"
    by (simp_all add: jane_editing_def jane_def mount_def draft_of_def or_empty_def)
  have ok: "update_succeeded (resolves (JObj [(''error'', JNull)]))"
    by (simp add: update_succeeded_def)
  have ko: "update_succeeded (resolves (JObj [(''error'', JStr ''permission denied'')])) = False"
    by (simp add: update_succeeded_def)
  from handleSave_spec [of jane "''e''" "resolves (JObj [(''error'', JNull)])" jane_editing]
    handleSave_spec [of jane "''e''" "resolves (JObj [(''error'', JStr ''permission denied'')])"
      jane_editing] f ok ko nbsp
  show ?thesis by auto
qed

end
